theory Spec2Isabelle
  imports Complex_Main "HOL-Library.Sublist"
begin

section \<open>Strings and JSON values\<close>

text \<open>
  A JavaScript string is modelled as a \<^typ>\<open>string\<close>. Case mapping and whitespace are
  those of the ASCII range; other characters are carried unchanged (the tickers and the
  delimiters of this program are ASCII).
\<close>

fun toUpperChar :: "char \<Rightarrow> char" where
  "toUpperChar (Char b0 b1 b2 b3 b4 b5 b6 b7) =
     (let n = (of_char (Char b0 b1 b2 b3 b4 b5 b6 b7) :: nat)
      in if 97 \<le> n \<and> n \<le> 122 then Char b0 b1 b2 b3 b4 False b6 b7
         else Char b0 b1 b2 b3 b4 b5 b6 b7)"

definition toUpperCase :: "string \<Rightarrow> string" where
  "toUpperCase s = map toUpperChar s"

definition isWhiteSpace :: "char \<Rightarrow> bool" where
  "isWhiteSpace c = ((of_char c :: nat) \<in> {9, 10, 11, 12, 13, 32})"

text \<open>\<^verbatim>\<open>String.prototype.trim\<close>\<close>

definition trim :: "string \<Rightarrow> string" where
  "trim s = rev (dropWhile isWhiteSpace (rev (dropWhile isWhiteSpace s)))"

text \<open>
  \<^verbatim>\<open>String.prototype.split\<close> with a non-empty separator string: the text is cut at each
  occurrence of the separator, scanning from the left; \<open>acc\<close> holds the current piece,
  reversed.
\<close>

fun splitAcc :: "string \<Rightarrow> string \<Rightarrow> string \<Rightarrow> string list" where
  "splitAcc sep acc [] = [rev acc]"
| "splitAcc sep acc (c # cs) =
     (if sep \<noteq> [] \<and> prefix sep (c # cs)
      then rev acc # splitAcc sep [] (drop (length sep - 1) cs)
      else splitAcc sep (c # acc) cs)"

definition split :: "string \<Rightarrow> string \<Rightarrow> string list" where
  "split sep s = splitAcc sep [] s"

text \<open>An array read \<^verbatim>\<open>xs[i]\<close>: \<^verbatim>\<open>undefined\<close> out of range.\<close>

definition nthOpt :: "'a list \<Rightarrow> nat \<Rightarrow> 'a option" where
  "nthOpt xs i = (if i < length xs then Some (xs ! i) else None)"

text \<open>A call that either throws (a rejected promise) or returns a value.\<close>

datatype 'a outcome = Throws | Returns 'a

text \<open>
  The values \<^verbatim>\<open>JSON.parse\<close> can produce. Arrays and objects are both \<open>JObject\<close>:
  the program only tests their truthiness and their \<^verbatim>\<open>typeof\<close>. Numbers are exact reals.
\<close>

datatype jsval = JNumber real | JString string | JBool bool | JNull | JObject

fun truthy :: "jsval \<Rightarrow> bool" where
  "truthy (JNumber n) = (n \<noteq> 0)"
| "truthy (JString s) = (s \<noteq> [])"
| "truthy (JBool b) = b"
| "truthy JNull = False"
| "truthy JObject = True"

section \<open>The asset collection and the market refresh (App)\<close>

text \<open>
  \<^verbatim>\<open>StockAsset\<close>. The enum \<^verbatim>\<open>AISource\<close> is declared outside the sources at hand, so the
  type of the \<open>source\<close> field is a parameter. \<open>lastUpdated\<close> is a \<^verbatim>\<open>Date.now()\<close> reading
  (milliseconds).
\<close>

record 'src stock_asset =
  id :: string
  ticker :: string
  companyName :: string
  quantity :: real
  avgPrice :: real
  currentPrice :: real
  source :: 'src
  iconUrl :: "string option"
  lastUpdated :: int

text \<open>
  The object \<^verbatim>\<open>updateMarketPrices\<close> resolves to. \<open>prices\<close> is the list
  \<^verbatim>\<open>Object.entries(marketData.prices)\<close>, in enumeration order, when the key is present.
\<close>

record market_data =
  prices :: "(string \<times> jsval) list option"
  usdJpy :: "real option"

record 'src app_state =
  assets :: "'src stock_asset list"
  usdJpyRate :: real
  isRefreshingMarket :: bool

text \<open>
  \<^verbatim>\<open>Object.entries(prices).find(([t, p]) => t.toUpperCase() === asset.ticker.toUpperCase())?.[1]\<close>
\<close>

definition findEntry :: "(string \<times> jsval) list \<Rightarrow> string \<Rightarrow> (string \<times> jsval) option" where
  "findEntry entries tk = find (\<lambda>(t, p). toUpperCase t = toUpperCase tk) entries"

definition newPriceOf :: "(string \<times> jsval) list \<Rightarrow> string \<Rightarrow> jsval option" where
  "newPriceOf entries tk = map_option snd (findEntry entries tk)"

text \<open>The body of the \<^verbatim>\<open>map\<close> callback; \<open>now\<close> is what \<^verbatim>\<open>Date.now()\<close> returns there.\<close>

definition mergeAsset ::
  "(string \<times> jsval) list \<Rightarrow> int \<Rightarrow> 'src stock_asset \<Rightarrow> 'src stock_asset" where
  "mergeAsset entries now asset =
     (case newPriceOf entries (ticker asset) of
        None \<Rightarrow> asset
      | Some newPrice \<Rightarrow>
          if truthy newPrice then
            asset\<lparr>currentPrice :=
                    (case newPrice of JNumber n \<Rightarrow> n | _ \<Rightarrow> currentPrice asset),
                  lastUpdated := now\<rparr>
          else asset)"

text \<open>
  The updater handed to \<^verbatim>\<open>setAssets\<close>: \<^verbatim>\<open>prevAssets.map(...)\<close>. The clock gives the
  reading of \<^verbatim>\<open>Date.now()\<close> for the record at each index.
\<close>

definition mergePrices ::
  "(string \<times> jsval) list \<Rightarrow> (nat \<Rightarrow> int) \<Rightarrow> 'src stock_asset list \<Rightarrow> 'src stock_asset list" where
  "mergePrices entries clock prevAssets =
     map (\<lambda>(i, asset). mergeAsset entries (clock i) asset) (enumerate 0 prevAssets)"

text \<open>
  \<^verbatim>\<open>handleRefreshMarketData\<close>. \<open>captured\<close> is the collection the handler closed over (the
  \<^verbatim>\<open>assets\<close> of the render that created it); \<open>marketData\<close> is what \<^verbatim>\<open>updateMarketPrices\<close>
  resolved to (\<open>None\<close> for \<^verbatim>\<open>null\<close>; it catches its own failures). The state updates are
  applied in the order the handler issues them.
\<close>

definition handleRefreshMarketData ::
  "'src stock_asset list \<Rightarrow> market_data option \<Rightarrow> (nat \<Rightarrow> int) \<Rightarrow> 'src app_state \<Rightarrow> 'src app_state" where
  "handleRefreshMarketData captured marketData clock st =
     (let st1 = st\<lparr>isRefreshingMarket := True\<rparr>;
          st2 =
            (case marketData of
               None \<Rightarrow> st1
             | Some md \<Rightarrow>
                 (let st_rate =
                        (case usdJpy md of
                           Some r \<Rightarrow> if r \<noteq> 0 then st1\<lparr>usdJpyRate := r\<rparr> else st1
                         | None \<Rightarrow> st1)
                  in case prices md of
                       Some entries \<Rightarrow>
                         if captured \<noteq> []
                         then st_rate\<lparr>assets := mergePrices entries clock (assets st_rate)\<rparr>
                         else st_rate
                     | None \<Rightarrow> st_rate))
      in st2\<lparr>isRefreshingMarket := False\<rparr>)"

text \<open>The tuple of a record that the idempotence property observes.\<close>

definition assetTuple :: "'src stock_asset \<Rightarrow> string \<times> real \<times> real \<times> real" where
  "assetTuple a = (ticker a, quantity a, avgPrice a, currentPrice a)"

section \<open>Numbers in double precision\<close>

text \<open>
  A JavaScript number is an IEEE 754 double. \<open>Finite s m\<close> is the finite double of sign
  \<open>s\<close> (\<open>True\<close> for minus) and magnitude \<open>m\<close>, so that both zeros exist; \<open>Infinity s\<close>
  and \<open>NaN\<close> are the special values. An arithmetic operation returns its exact result
  rounded to the nearest double, ties going to the even significand.
\<close>

datatype number = Finite bool real | Infinity bool | NaN

text \<open>The number of binary digits of a natural number.\<close>

fun bitLength :: "nat \<Rightarrow> nat" where
  "bitLength n = (if n = 0 then 0 else Suc (bitLength (n div 2)))"

text \<open>
  The recursion equation is applied on demand only, since it has no base case of its own.
\<close>

declare bitLength.simps [simp del]

text \<open>\<open>pow2 e\<close> is 2 to the power \<open>e\<close>, for an integer \<open>e\<close>.\<close>

definition pow2 :: "int \<Rightarrow> real" where
  "pow2 e = (if 0 \<le> e then 2 ^ nat e else inverse (2 ^ nat (- e)))"

text \<open>For \<open>x > 0\<close>, the integer \<open>e\<close> with \<open>2^e \<le> x < 2^(e+1)\<close>.\<close>

definition ilog2 :: "real \<Rightarrow> int" where
  "ilog2 x =
     (if 1 \<le> x then int (bitLength (nat \<lfloor>x\<rfloor>)) - 1
      else - int (bitLength (nat (\<lceil>1 / x\<rceil> - 1))))"

text \<open>The integer nearest to \<open>y\<close>, the even one of the two when \<open>y\<close> lies halfway.\<close>

definition roundHalfEven :: "real \<Rightarrow> int" where
  "roundHalfEven y =
     (let f = \<lfloor>y\<rfloor>; d = y - of_int f
      in if d < 1 / 2 then f
         else if 1 / 2 < d then f + 1
         else if even f then f else f + 1)"

text \<open>
  Rounding of a magnitude \<open>x \<ge> 0\<close>. The doubles around \<open>x\<close> are the multiples of
  \<open>2^e\<close>, where \<open>e\<close> leaves 53 binary digits to the significand and is at least -1074,
  the exponent of the subnormal doubles. A rounded magnitude of \<open>2^1024\<close> or more overflows:
  the result is \<open>None\<close>, for infinity.
\<close>

definition roundMag :: "real \<Rightarrow> real option" where
  "roundMag x =
     (if x = 0 then Some 0
      else
        (let e = max (ilog2 x - 52) (- 1074);
             y = of_int (roundHalfEven (x / pow2 e)) * pow2 e
         in if 2 ^ 1024 \<le> y then None else Some y))"

definition fromMag :: "bool \<Rightarrow> real \<Rightarrow> number" where
  "fromMag s x = (case roundMag x of Some y \<Rightarrow> Finite s y | None \<Rightarrow> Infinity s)"

text \<open>
  The fields of an asset hold finite doubles, each given by its value; \<open>fromReal\<close> reads
  one. \<open>isDouble\<close> says that a real is the value of a double.
\<close>

definition fromReal :: "real \<Rightarrow> number" where
  "fromReal r = Finite (r < 0) \<bar>r\<bar>"


fun signedValue :: "bool \<Rightarrow> real \<Rightarrow> real" where
  "signedValue s a = (if s then - a else a)"

text \<open>
  Addition \<^verbatim>\<open>x + y\<close>. An exact sum of 0 is \<open>-0\<close> when both operands are negative (zeros),
  and \<open>+0\<close> otherwise.
\<close>

fun dadd :: "number \<Rightarrow> number \<Rightarrow> number" where
  "dadd NaN y = NaN"
| "dadd x NaN = NaN"
| "dadd (Infinity s) (Infinity t) = (if s = t then Infinity s else NaN)"
| "dadd (Infinity s) (Finite t b) = Infinity s"
| "dadd (Finite s a) (Infinity t) = Infinity t"
| "dadd (Finite s a) (Finite t b) =
     (let v = signedValue s a + signedValue t b
      in if v = 0 then Finite (s \<and> t) 0 else fromMag (v < 0) \<bar>v\<bar>)"

fun dneg :: "number \<Rightarrow> number" where
  "dneg NaN = NaN"
| "dneg (Infinity s) = Infinity (\<not> s)"
| "dneg (Finite s a) = Finite (\<not> s) a"

text \<open>Subtraction \<^verbatim>\<open>x - y\<close>.\<close>

definition dsub :: "number \<Rightarrow> number \<Rightarrow> number" where
  "dsub x y = dadd x (dneg y)"

text \<open>Multiplication \<^verbatim>\<open>x * y\<close>.\<close>

fun dmul :: "number \<Rightarrow> number \<Rightarrow> number" where
  "dmul NaN y = NaN"
| "dmul x NaN = NaN"
| "dmul (Infinity s) (Infinity t) = Infinity (s \<noteq> t)"
| "dmul (Infinity s) (Finite t b) = (if b = 0 then NaN else Infinity (s \<noteq> t))"
| "dmul (Finite s a) (Infinity t) = (if a = 0 then NaN else Infinity (s \<noteq> t))"
| "dmul (Finite s a) (Finite t b) = fromMag (s \<noteq> t) (a * b)"

text \<open>Division \<^verbatim>\<open>x / y\<close>: a division by zero is not a fault, it gives an infinity or NaN.\<close>

fun ddiv :: "number \<Rightarrow> number \<Rightarrow> number" where
  "ddiv NaN y = NaN"
| "ddiv x NaN = NaN"
| "ddiv (Infinity s) (Infinity t) = NaN"
| "ddiv (Infinity s) (Finite t b) = Infinity (s \<noteq> t)"
| "ddiv (Finite s a) (Infinity t) = Finite (s \<noteq> t) 0"
| "ddiv (Finite s a) (Finite t b) =
     (if b = 0 then (if a = 0 then NaN else Infinity (s \<noteq> t))
      else fromMag (s \<noteq> t) (a / b))"

text \<open>The comparison \<^verbatim>\<open>x > 0\<close> and the test \<^verbatim>\<open>x === 0\<close> (true of both zeros).\<close>

fun greaterThanZero :: "number \<Rightarrow> bool" where
  "greaterThanZero NaN = False"
| "greaterThanZero (Infinity s) = (\<not> s)"
| "greaterThanZero (Finite s a) = (\<not> s \<and> 0 < a)"




section \<open>The portfolio summary (Dashboard)\<close>

record portfolio_summary =
  totalValue :: number
  totalCost :: number
  totalGain :: number
  gainPercentage :: number

text \<open>The callback of \<^verbatim>\<open>assets.reduce\<close>.\<close>

definition summaryStep :: "portfolio_summary \<Rightarrow> 'src stock_asset \<Rightarrow> portfolio_summary" where
  "summaryStep acc asset =
     (let currentVal = dmul (fromReal (quantity asset)) (fromReal (currentPrice asset));
          costBasis = dmul (fromReal (quantity asset)) (fromReal (avgPrice asset))
      in \<lparr>totalValue = dadd (totalValue acc) currentVal,
          totalCost = dadd (totalCost acc) costBasis,
          totalGain = dadd (totalGain acc) (dsub currentVal costBasis),
          gainPercentage = fromReal 0\<rparr>)"

text \<open>The reduction, followed by the assignment of \<^verbatim>\<open>summary.gainPercentage\<close>.\<close>

definition summary :: "'src stock_asset list \<Rightarrow> portfolio_summary" where
  "summary as =
     (let s = foldl summaryStep
                \<lparr>totalValue = fromReal 0, totalCost = fromReal 0, totalGain = fromReal 0,
                 gainPercentage = fromReal 0\<rparr> as
      in s\<lparr>gainPercentage :=
             (if greaterThanZero (totalCost s)
              then dmul (ddiv (totalGain s) (totalCost s)) (fromReal 100)
              else fromReal 0)\<rparr>)"

section \<open>The news gateway (fetchStockNews)\<close>

text \<open>The two fixed headlines of the source (Japanese text, as UTF-8 bytes).\<close>

definition relatedNewsHeadline :: string where
  "relatedNewsHeadline =
    [CHR 0xE9, CHR 0x96, CHR 0xA2, CHR 0xE9, CHR 0x80, CHR 0xA3, CHR 0xE3, CHR 0x83, CHR 0x8B,
     CHR 0xE3, CHR 0x83, CHR 0xA5, CHR 0xE3, CHR 0x83, CHR 0xBC, CHR 0xE3, CHR 0x82, CHR 0xB9]"

definition marketNewsHeadline :: string where
  "marketNewsHeadline =
    [CHR 0xE5, CHR 0xB8, CHR 0x82, CHR 0xE5, CHR 0xA0, CHR 0xB4, CHR 0xE3, CHR 0x83, CHR 0x8B,
     CHR 0xE3, CHR 0x83, CHR 0xA5, CHR 0xE3, CHR 0x83, CHR 0xBC, CHR 0xE3, CHR 0x82, CHR 0xB9]"

record web_info =
  uri :: "string option"
  title :: "string option"

record grounding_chunk =
  web :: "web_info option"

text \<open>\<^verbatim>\<open>NewsItem\<close>; the fields are prefixed, \<open>summary\<close> and \<open>source\<close> being taken.\<close>

record news_item =
  n_headline :: string
  n_summary :: string
  n_url :: "string option"
  n_source :: string

text \<open>
  What the program reads of the response of \<^verbatim>\<open>generateContent\<close>: \<^verbatim>\<open>response.text\<close> and
  the grounding chunks of the first candidate (\<open>[]\<close> when any link of the chain is absent).
\<close>

record news_response =
  resp_text :: "string option"
  groundingChunks :: "grounding_chunk list"

text \<open>The callback of \<^verbatim>\<open>rawItems.map((raw, index) => ...)\<close>.\<close>

definition newsItemOf :: "grounding_chunk list \<Rightarrow> nat \<Rightarrow> string \<Rightarrow> news_item" where
  "newsItemOf chunks index raw =
     (let parts = split ''::'' raw;
          headline =
            (case nthOpt parts 0 of
               Some p \<Rightarrow> if trim p \<noteq> [] then trim p else relatedNewsHeadline
             | None \<Rightarrow> relatedNewsHeadline);
          summary =
            (case nthOpt parts 1 of
               Some p \<Rightarrow> if trim p \<noteq> [] then trim p else raw
             | None \<Rightarrow> raw);
          chunk = (if chunks = [] then None else nthOpt chunks (index mod length chunks));
          url = Option.bind (Option.bind chunk web) uri;
          source =
            (case Option.bind (Option.bind chunk web) title of
               Some t \<Rightarrow> if t \<noteq> [] then t else ''Google Search''
             | None \<Rightarrow> ''Google Search'')
      in \<lparr>n_headline = headline, n_summary = summary, n_url = url, n_source = source\<rparr>)"

text \<open>
  \<^verbatim>\<open>fetchStockNews\<close>; \<open>response\<close> is the outcome of the call of the gateway (\<open>Throws\<close>
  is caught and gives the empty list).
\<close>

definition fetchStockNews :: "string list \<Rightarrow> news_response outcome \<Rightarrow> news_item list" where
  "fetchStockNews tickers response =
     (if tickers = [] then []
      else case response of
        Throws \<Rightarrow> []
      | Returns r \<Rightarrow>
          (let text = (case resp_text r of Some t \<Rightarrow> t | None \<Rightarrow> []);
               chunks = groundingChunks r;
               rawItems = filter (\<lambda>s. s \<noteq> []) (map trim (split ''|||'' text));
               newsItems = map (\<lambda>(index, raw). newsItemOf chunks index raw) (enumerate 0 rawItems)
           in if newsItems = [] \<and> text \<noteq> []
              then [\<lparr>n_headline = marketNewsHeadline, n_summary = text,
                      n_url = Option.bind (Option.bind (nthOpt chunks 0) web) uri,
                      n_source = ''Google Search''\<rparr>]
              else newsItems))"

section \<open>The chat session (SidebarChat)\<close>

text \<open>The fixed error message of the \<^verbatim>\<open>catch\<close> branch (Japanese text, as UTF-8 bytes).\<close>

definition chatErrorText :: string where
  "chatErrorText =
    [CHR 0xE7, CHR 0x94, CHR 0xB3, CHR 0xE3, CHR 0x81, CHR 0x97, CHR 0xE8, CHR 0xA8, CHR 0xB3,
     CHR 0xE3, CHR 0x81, CHR 0x82, CHR 0xE3, CHR 0x82, CHR 0x8A, CHR 0xE3, CHR 0x81, CHR 0xBE,
     CHR 0xE3, CHR 0x81, CHR 0x9B, CHR 0xE3, CHR 0x82, CHR 0x93, CHR 0xE3, CHR 0x80, CHR 0x82,
     CHR 0xE3, CHR 0x83, CHR 0xAA, CHR 0xE3, CHR 0x82, CHR 0xAF, CHR 0xE3, CHR 0x82, CHR 0xA8,
     CHR 0xE3, CHR 0x82, CHR 0xB9, CHR 0xE3, CHR 0x83, CHR 0x88, CHR 0xE3, CHR 0x81, CHR 0xAE,
     CHR 0xE5, CHR 0x87, CHR 0xA6, CHR 0xE7, CHR 0x90, CHR 0x86, CHR 0xE4, CHR 0xB8, CHR 0xAD,
     CHR 0xE3, CHR 0x81, CHR 0xAB, CHR 0xE3, CHR 0x82, CHR 0xA8, CHR 0xE3, CHR 0x83, CHR 0xA9,
     CHR 0xE3, CHR 0x83, CHR 0xBC, CHR 0xE3, CHR 0x81, CHR 0x8C, CHR 0xE7, CHR 0x99, CHR 0xBA,
     CHR 0xE7, CHR 0x94, CHR 0x9F, CHR 0xE3, CHR 0x81, CHR 0x97, CHR 0xE3, CHR 0x81, CHR 0xBE,
     CHR 0xE3, CHR 0x81, CHR 0x97, CHR 0xE3, CHR 0x81, CHR 0x9F, CHR 0xE3, CHR 0x80, CHR 0x82]"

datatype role = User | Model

text \<open>\<^verbatim>\<open>ChatMessage\<close>; \<open>isThinking\<close> is an optional field.\<close>

record chat_message =
  role :: role
  msg_text :: string
  isThinking :: "bool option"

record chat_state =
  messages :: "chat_message list"
  input :: string
  isLoading :: bool

text \<open>
  The stream \<^verbatim>\<open>streamPortfolioChat\<close> gives: the fragments it yields, then its end or a
  failure (a failure of the gateway before the first fragment is \<open>([], StreamFails)\<close>).
\<close>

datatype stream_end = StreamDone | StreamFails

text \<open>
  The updates of \<^verbatim>\<open>handleSend\<close> up to the start of the loop: the user message, the
  cleared input, the loading flag, and the placeholder of the assistant.
\<close>

definition sendStart :: "chat_state \<Rightarrow> chat_state" where
  "sendStart st =
     (let userMsg = \<lparr>role = User, msg_text = input st, isThinking = None\<rparr>;
          st1 = st\<lparr>messages := messages st @ [userMsg]\<rparr>;
          st2 = st1\<lparr>input := []\<rparr>;
          st3 = st2\<lparr>isLoading := True\<rparr>
      in st3\<lparr>messages := messages st3 @ [\<lparr>role = Model, msg_text = [], isThinking = Some True\<rparr>]\<rparr>)"

text \<open>
  One turn of the \<^verbatim>\<open>for await\<close> loop, on the pair of the message list and
  \<^verbatim>\<open>fullResponse\<close>.
\<close>

definition streamStep :: "chat_message list \<times> string \<Rightarrow> string \<Rightarrow> chat_message list \<times> string" where
  "streamStep s chunk =
     (let fullResponse = snd s @ chunk;
          newArr = fst s
      in (newArr[length newArr - 1 := \<lparr>role = Model, msg_text = fullResponse, isThinking = Some False\<rparr>],
          fullResponse))"

text \<open>The state once the fragments \<open>chunks\<close> have arrived, the stream still open.\<close>

definition sendReceived :: "chat_state \<Rightarrow> string list \<Rightarrow> chat_state" where
  "sendReceived st chunks =
     (let st0 = sendStart st
      in st0\<lparr>messages := fst (foldl streamStep (messages st0, []) chunks)\<rparr>)"

text \<open>\<^verbatim>\<open>handleSend\<close>, run to its end on a stream.\<close>

definition handleSend :: "chat_state \<Rightarrow> string list \<times> stream_end \<Rightarrow> chat_state" where
  "handleSend st stream =
     (if trim (input st) = [] \<or> isLoading st then st
      else
        (let st1 = sendReceived st (fst stream);
             st2 =
               (case snd stream of
                  StreamDone \<Rightarrow> st1
                | StreamFails \<Rightarrow>
                    st1\<lparr>messages := messages st1 @
                      [\<lparr>role = Model, msg_text = chatErrorText, isThinking = None\<rparr>]\<rparr>)
         in st2\<lparr>isLoading := False\<rparr>))"

section \<open>The receipt upload (AddAssetModal)\<close>

text \<open>The three status texts of the source (Japanese text, as UTF-8 bytes).\<close>

definition analysingStatus :: string where
  "analysingStatus =
    [CHR 0x47, CHR 0x65, CHR 0x6D, CHR 0x69, CHR 0x6E, CHR 0x69, CHR 0x20, CHR 0x56, CHR 0x69,
     CHR 0x73, CHR 0x69, CHR 0x6F, CHR 0x6E, CHR 0xE3, CHR 0x81, CHR 0x8C, CHR 0xE3, CHR 0x83,
     CHR 0xAC, CHR 0xE3, CHR 0x82, CHR 0xB7, CHR 0xE3, CHR 0x83, CHR 0xBC, CHR 0xE3, CHR 0x83,
     CHR 0x88, CHR 0xE3, CHR 0x82, CHR 0x92, CHR 0xE8, CHR 0xA7, CHR 0xA3, CHR 0xE6, CHR 0x9E,
     CHR 0x90, CHR 0xE4, CHR 0xB8, CHR 0xAD, CHR 0x2E, CHR 0x2E, CHR 0x2E]"

definition extractedStatus :: string where
  "extractedStatus =
    [CHR 0xE3, CHR 0x83, CHR 0x87, CHR 0xE3, CHR 0x83, CHR 0xBC, CHR 0xE3, CHR 0x82, CHR 0xBF,
     CHR 0xE3, CHR 0x82, CHR 0x92, CHR 0xE6, CHR 0x8A, CHR 0xBD, CHR 0xE5, CHR 0x87, CHR 0xBA,
     CHR 0xE3, CHR 0x81, CHR 0x97, CHR 0xE3, CHR 0x81, CHR 0xBE, CHR 0xE3, CHR 0x81, CHR 0x97,
     CHR 0xE3, CHR 0x81, CHR 0x9F, CHR 0xEF, CHR 0xBC, CHR 0x81, CHR 0xE5, CHR 0x86, CHR 0x85,
     CHR 0xE5, CHR 0xAE, CHR 0xB9, CHR 0xE3, CHR 0x82, CHR 0x92, CHR 0xE7, CHR 0xA2, CHR 0xBA,
     CHR 0xE8, CHR 0xAA, CHR 0x8D, CHR 0xE3, CHR 0x81, CHR 0x97, CHR 0xE3, CHR 0x81, CHR 0xA6,
     CHR 0xE3, CHR 0x81, CHR 0x8F, CHR 0xE3, CHR 0x81, CHR 0xA0, CHR 0xE3, CHR 0x81, CHR 0x95,
     CHR 0xE3, CHR 0x81, CHR 0x84, CHR 0xE3, CHR 0x80, CHR 0x82]"

definition failedStatus :: string where
  "failedStatus =
    [CHR 0xE7, CHR 0x94, CHR 0xBB, CHR 0xE5, CHR 0x83, CHR 0x8F, CHR 0xE3, CHR 0x81, CHR 0xAE,
     CHR 0xE8, CHR 0xA7, CHR 0xA3, CHR 0xE6, CHR 0x9E, CHR 0x90, CHR 0xE3, CHR 0x81, CHR 0xAB,
     CHR 0xE5, CHR 0xA4, CHR 0xB1, CHR 0xE6, CHR 0x95, CHR 0x97, CHR 0xE3, CHR 0x81, CHR 0x97,
     CHR 0xE3, CHR 0x81, CHR 0xBE, CHR 0xE3, CHR 0x81, CHR 0x97, CHR 0xE3, CHR 0x81, CHR 0x9F,
     CHR 0xE3, CHR 0x80, CHR 0x82]"

datatype tab = Manual | Image

text \<open>
  The state of the modal. The form fields \<^verbatim>\<open>ticker\<close>, \<^verbatim>\<open>qty\<close>, \<^verbatim>\<open>price\<close> and
  \<^verbatim>\<open>source\<close> are prefixed (\<open>ticker\<close> and \<open>source\<close> are fields of the asset record).
\<close>

record 'src modal_state =
  activeTab :: tab
  isProcessing :: bool
  loadingStatus :: string
  form_ticker :: string
  form_qty :: string
  form_price :: string
  form_source :: 'src

text \<open>
  The object \<^verbatim>\<open>parseTradeScreenshot\<close> resolves to (\<^verbatim>\<open>Partial<StockAsset>\<close>): the four
  keys of the response schema, each present or not.
\<close>

record receipt =
  r_ticker :: "string option"
  r_companyName :: "string option"
  r_quantity :: "real option"
  r_avgPrice :: "real option"

text \<open>
  The body of \<^verbatim>\<open>if (data) { ... }\<close>. \<open>numberToString\<close> is \<^verbatim>\<open>Number.prototype.toString\<close>,
  taken as a parameter.
\<close>

definition patchForm :: "(real \<Rightarrow> string) \<Rightarrow> receipt \<Rightarrow> 'src modal_state \<Rightarrow> 'src modal_state" where
  "patchForm numberToString d st =
     (let st1 = (case r_ticker d of
                   Some t \<Rightarrow> if t \<noteq> [] then st\<lparr>form_ticker := t\<rparr> else st
                 | None \<Rightarrow> st);
          st2 = (case r_quantity d of
                   Some q \<Rightarrow> if q \<noteq> 0 then st1\<lparr>form_qty := numberToString q\<rparr> else st1
                 | None \<Rightarrow> st1);
          st3 = (case r_avgPrice d of
                   Some p \<Rightarrow> if p \<noteq> 0 then st2\<lparr>form_price := numberToString p\<rparr> else st2
                 | None \<Rightarrow> st2);
          st4 = st3\<lparr>activeTab := Manual\<rparr>
      in st4\<lparr>loadingStatus := extractedStatus\<rparr>)"

text \<open>
  The callback \<^verbatim>\<open>reader.onloadend\<close>. \<open>readResult\<close> is \<^verbatim>\<open>reader.result\<close>: \<open>None\<close> for
  \<^verbatim>\<open>null\<close>, which a failed read leaves there. \<open>parseTradeScreenshot\<close> is the gateway: it
  returns the parsed object or \<^verbatim>\<open>null\<close>, or throws. An exception inside the callback ends
  the callback: nothing catches it, and the updates after it are not made.
\<close>

definition onloadend ::
  "(real \<Rightarrow> string) \<Rightarrow> (string option \<Rightarrow> string \<Rightarrow> receipt option outcome) \<Rightarrow>
   string \<Rightarrow> string option \<Rightarrow> 'src modal_state \<Rightarrow> 'src modal_state" where
  "onloadend numberToString parseTradeScreenshot mimeType readResult st =
     (case readResult of
        None \<Rightarrow> st
      | Some base64String \<Rightarrow>
          (let base64Data = nthOpt (split '','' base64String) 1
           in case parseTradeScreenshot base64Data mimeType of
                Throws \<Rightarrow> st
              | Returns data \<Rightarrow>
                  (let st1 = (case data of Some d \<Rightarrow> patchForm numberToString d st | None \<Rightarrow> st)
                   in st1\<lparr>isProcessing := False\<rparr>)))"

text \<open>
  \<^verbatim>\<open>handleFileChange\<close>. \<open>file\<close> is the MIME type of the chosen file, if one was chosen;
  \<open>startThrows\<close> says whether creating the reader or \<^verbatim>\<open>readAsDataURL\<close> throws, the only
  failures the \<^verbatim>\<open>try\<close> block covers.
\<close>

definition handleFileChange ::
  "(real \<Rightarrow> string) \<Rightarrow> (string option \<Rightarrow> string \<Rightarrow> receipt option outcome) \<Rightarrow>
   bool \<Rightarrow> string option \<Rightarrow> string option \<Rightarrow> 'src modal_state \<Rightarrow> 'src modal_state" where
  "handleFileChange numberToString parseTradeScreenshot startThrows readResult file st =
     (case file of
        None \<Rightarrow> st
      | Some mimeType \<Rightarrow>
          (let st1 = st\<lparr>isProcessing := True\<rparr>;
               st2 = st1\<lparr>loadingStatus := analysingStatus\<rparr>
           in if startThrows
              then (let st3 = st2\<lparr>loadingStatus := failedStatus\<rparr>
                    in st3\<lparr>isProcessing := False\<rparr>)
              else onloadend numberToString parseTradeScreenshot mimeType readResult st2))"

section \<open>Example inputs\<close>

text \<open>Two lots, a clock and snapshots, used to run the definitions on concrete inputs.\<close>

definition ex_asset :: "unit stock_asset" where
  "ex_asset = \<lparr>id = ''1'', ticker = ''AAA'', companyName = ''AAA'', quantity = 2,
     avgPrice = 10, currentPrice = 10, source = (), iconUrl = None, lastUpdated = 0\<rparr>"

definition ex_asset_b :: "unit stock_asset" where
  "ex_asset_b = \<lparr>id = ''2'', ticker = ''BBB'', companyName = ''BBB'', quantity = 1,
     avgPrice = 20, currentPrice = 20, source = (), iconUrl = None, lastUpdated = 0\<rparr>"

definition ex_clock :: "nat \<Rightarrow> int" where
  "ex_clock i = 1000 + int i"

definition ex_state :: "unit app_state" where
  "ex_state = \<lparr>assets = [ex_asset, ex_asset_b], usdJpyRate = 150, isRefreshingMarket = False\<rparr>"

definition ex_snapshot :: market_data where
  "ex_snapshot = \<lparr>prices = Some [(''aaa'', JNumber 15)], usdJpy = Some 151\<rparr>"

definition ex_zero_snapshot :: market_data where
  "ex_zero_snapshot = \<lparr>prices = Some [(''AAA'', JNumber 0)], usdJpy = None\<rparr>"

definition ex_two_keys_snapshot :: market_data where
  "ex_two_keys_snapshot = \<lparr>prices = Some [(''aaa'', JNumber 5), (''AAA'', JNumber 0)], usdJpy = None\<rparr>"




text \<open>A chat session with the greeting in its history and a typed message.\<close>

definition ex_chat_state :: chat_state where
  "ex_chat_state =
     \<lparr>messages = [\<lparr>role = Model, msg_text = ''Hello'', isThinking = None\<rparr>],
      input = ''hi'', isLoading = False\<rparr>"

text \<open>Responses of the news gateway: a text without grounding chunks.\<close>

definition ex_news_response :: "string \<Rightarrow> news_response outcome" where
  "ex_news_response t = Returns \<lparr>resp_text = Some t, groundingChunks = []\<rparr>"

definition ex_eleven_stories :: string where
  "ex_eleven_stories = ''a|||b|||c|||d|||e|||f|||g|||h|||i|||j|||k''"

text \<open>
  The modal with a form the user has filled in, a data URL, and three gateways.
  \<open>ex_numberToString\<close> stands in for \<^verbatim>\<open>Number.prototype.toString\<close>: only its value at
  0 is used below.
\<close>

definition ex_numberToString :: "real \<Rightarrow> string" where
  "ex_numberToString x = (if x = 0 then ''0'' else ''1'')"

definition ex_modal_state :: "unit modal_state" where
  "ex_modal_state =
     \<lparr>activeTab = Image, isProcessing = False, loadingStatus = [],
      form_ticker = ''AAPL'', form_qty = ''5'', form_price = ''100'', form_source = ()\<rparr>"

definition ex_data_url :: string where
  "ex_data_url = ''data:image/png;base64,iVBORw0KGgo=''"

definition ex_parse_throws :: "string option \<Rightarrow> string \<Rightarrow> receipt option outcome" where
  "ex_parse_throws base64Data mimeType = Throws"

definition ex_parse_ticker_only :: "string option \<Rightarrow> string \<Rightarrow> receipt option outcome" where
  "ex_parse_ticker_only base64Data mimeType =
     Returns (Some \<lparr>r_ticker = Some ''MSFT'', r_companyName = None,
                     r_quantity = None, r_avgPrice = None\<rparr>)"

definition ex_parse_zero_quantity :: "string option \<Rightarrow> string \<Rightarrow> receipt option outcome" where
  "ex_parse_zero_quantity base64Data mimeType =
     Returns (Some \<lparr>r_ticker = Some ''MSFT'', r_companyName = None,
                     r_quantity = Some 0, r_avgPrice = None\<rparr>)"

section \<open>Properties of the market refresh\<close>

lemmas ex_defs = ex_asset_def ex_asset_b_def ex_clock_def ex_state_def ex_snapshot_def
  ex_zero_snapshot_def ex_two_keys_snapshot_def
lemmas refresh_defs = handleRefreshMarketData_def mergePrices_def mergeAsset_def newPriceOf_def
      findEntry_def toUpperCase_def assetTuple_def

lemma mergeAsset_ticker: "ticker (mergeAsset entries now a) = ticker a"
  by (simp add: mergeAsset_def split: option.splits)

lemma mergeAsset_tuple_idem:
  "assetTuple (mergeAsset entries t2 (mergeAsset entries t1 a)) =
   assetTuple (mergeAsset entries t1 a)"
  by (simp add: mergeAsset_def assetTuple_def split: option.splits jsval.splits)

lemma length_mergePrices: "length (mergePrices entries clock xs) = length xs"
  by (simp add: mergePrices_def)

lemma nth_mergePrices:
  "i < length xs \<Longrightarrow> mergePrices entries clock xs ! i = mergeAsset entries (clock i) (xs ! i)"
  by (simp add: mergePrices_def nth_enumerate_eq)

lemma mergePrices_tuples_idem:
  "map assetTuple (mergePrices entries c2 (mergePrices entries c1 xs)) =
   map assetTuple (mergePrices entries c1 xs)"
  by (rule nth_equalityI)
     (simp_all add: length_mergePrices nth_mergePrices mergeAsset_tuple_idem)

lemma mergeAsset_idem_but_time:
  "(mergeAsset entries t2 (mergeAsset entries t1 a))\<lparr>lastUpdated := t\<rparr> =
   (mergeAsset entries t1 a)\<lparr>lastUpdated := t\<rparr>"
  by (simp add: mergeAsset_def split: option.splits jsval.splits)

lemma mergePrices_idem_but_time:
  "map (\<lambda>a. a\<lparr>lastUpdated := t\<rparr>) (mergePrices entries c2 (mergePrices entries c1 xs)) =
   map (\<lambda>a. a\<lparr>lastUpdated := t\<rparr>) (mergePrices entries c1 xs)"
  by (rule nth_equalityI)
     (simp_all add: length_mergePrices nth_mergePrices mergeAsset_idem_but_time)

lemma assets_handleRefresh:
  "assets (handleRefreshMarketData captured marketData clock st) =
     (case marketData of
        None \<Rightarrow> assets st
      | Some md \<Rightarrow>
          (case prices md of
             None \<Rightarrow> assets st
           | Some entries \<Rightarrow>
               if captured \<noteq> [] then mergePrices entries clock (assets st) else assets st))"
  by (simp add: handleRefreshMarketData_def Let_def split: option.splits)

text \<open>
  What \<open>findEntry\<close> returns is the first entry, in enumeration order, whose key equals the
  ticker once both are upper-cased.
\<close>

lemma findEntry_Some:
  "findEntry entries tk = Some (k, v) \<Longrightarrow>
     (k, v) \<in> set entries \<and> toUpperCase k = toUpperCase tk"
  by (induction entries) (auto simp add: findEntry_def split: if_splits)

text \<open>
  Claim C1, as amended. After a refresh whose snapshot carries a price mapping, run by a
  handler that captured a non-empty collection, the collection has the same length, and for
  every record: if the first key of the mapping (in enumeration order) that equals its ticker
  case-insensitively carries a non-zero number, the record's \<open>currentPrice\<close> is that number
  and its \<open>lastUpdated\<close> is the clock reading, all other fields kept (so every lot sharing
  the ticker gets the same price); if no key equals its ticker case-insensitively, the record
  is unchanged in all fields.
\<close>

theorem refresh_merge_postcondition:
  assumes "prices md = Some entries" and "captured \<noteq> []" and "i < length (assets st)"
  shows "length (assets (handleRefreshMarketData captured (Some md) clock st)) = length (assets st)
    \<and> (\<forall>k p. findEntry entries (ticker (assets st ! i)) = Some (k, JNumber p) \<and> p \<noteq> 0 \<longrightarrow>
          assets (handleRefreshMarketData captured (Some md) clock st) ! i
            = (assets st ! i)\<lparr>currentPrice := p, lastUpdated := clock i\<rparr>)
    \<and> ((\<forall>(k, v) \<in> set entries. toUpperCase k \<noteq> toUpperCase (ticker (assets st ! i))) \<longrightarrow>
          assets (handleRefreshMarketData captured (Some md) clock st) ! i = assets st ! i)"
proof -
  have A: "assets (handleRefreshMarketData captured (Some md) clock st)
             = mergePrices entries clock (assets st)"
    using assms(1,2) by (simp add: assets_handleRefresh)
  have B: "findEntry entries tk = None"
    if "\<forall>(k, v) \<in> set entries. toUpperCase k \<noteq> toUpperCase tk" for tk
    using that by (auto simp add: findEntry_def find_None_iff)
  show ?thesis
    using assms(3)
    by (auto simp add: A length_mergePrices nth_mergePrices mergeAsset_def newPriceOf_def B)
qed

text \<open>
  The theorem at the snapshot \<open>{aaa: 15}\<close> and the lots \<open>AAA\<close> and \<open>BBB\<close>: the first
  takes the price 15, the second is unchanged.
\<close>

theorem refresh_merge_postcondition_witness:
  "prices ex_snapshot = Some [(''aaa'', JNumber 15)] \<and> [ex_asset] \<noteq> [] \<and> 0 < length (assets ex_state)
   \<and> findEntry [(''aaa'', JNumber 15)] (ticker (assets ex_state ! 0)) = Some (''aaa'', JNumber 15)
   \<and> assets (handleRefreshMarketData [ex_asset] (Some ex_snapshot) ex_clock ex_state)
       = [ex_asset\<lparr>currentPrice := 15, lastUpdated := 1000\<rparr>, ex_asset_b]"
  using refresh_merge_postcondition [of ex_snapshot "[(''aaa'', JNumber 15)]" "[ex_asset]" 0 ex_state ex_clock]
  by (simp add: refresh_defs ex_defs)

text \<open>
  The wording "every record whose ticker equals a mapping key has its currentPrice replaced
  by that key's price" fails at the snapshot \<open>{AAA: 0}\<close>: the lot \<open>AAA\<close> keeps its price
  10 and its timestamp.
\<close>

theorem refresh_merge_zero_price_counterexample:
  "prices ex_zero_snapshot = Some [(''AAA'', JNumber 0)]
   \<and> toUpperCase ''AAA'' = toUpperCase (ticker (assets ex_state ! 0))
   \<and> currentPrice (assets (handleRefreshMarketData (assets ex_state) (Some ex_zero_snapshot) ex_clock ex_state) ! 0) = 10
   \<and> currentPrice (assets (handleRefreshMarketData (assets ex_state) (Some ex_zero_snapshot) ex_clock ex_state) ! 0) \<noteq> 0
   \<and> lastUpdated (assets (handleRefreshMarketData (assets ex_state) (Some ex_zero_snapshot) ex_clock ex_state) ! 0)
       \<noteq> ex_clock 0"
  by (simp add: refresh_defs ex_defs)

text \<open>
  Claim C2. Refreshing twice with the same snapshot gives, record by record, the same tuple
  (ticker, quantity, avgPrice, currentPrice) as refreshing once, whatever the clock readings
  of the two runs: the two collections are equal once \<open>lastUpdated\<close> is disregarded, and
  the exchange rate is the same. \<open>c1\<close> and \<open>c2\<close> are the collections the two runs of
  the handler captured: the first is non-empty whenever the second is, so that the first
  merge is not skipped while the second is made.
\<close>

theorem refresh_merge_idempotent:
  assumes "c1 = [] \<longrightarrow> c2 = []"
  shows "map assetTuple (assets (handleRefreshMarketData c2 md k2 (handleRefreshMarketData c1 md k1 st)))
         = map assetTuple (assets (handleRefreshMarketData c1 md k1 st))
    \<and> map (\<lambda>a. a\<lparr>lastUpdated := 0\<rparr>)
           (assets (handleRefreshMarketData c2 md k2 (handleRefreshMarketData c1 md k1 st)))
         = map (\<lambda>a. a\<lparr>lastUpdated := 0\<rparr>) (assets (handleRefreshMarketData c1 md k1 st))
    \<and> usdJpyRate (handleRefreshMarketData c2 md k2 (handleRefreshMarketData c1 md k1 st))
         = usdJpyRate (handleRefreshMarketData c1 md k1 st)"
proof -
  have rate: "usdJpyRate (handleRefreshMarketData c2 md k2 (handleRefreshMarketData c1 md k1 st))
         = usdJpyRate (handleRefreshMarketData c1 md k1 st)"
    by (simp add: handleRefreshMarketData_def Let_def split: option.splits)
  from assms rate show ?thesis
    by (auto simp add: assets_handleRefresh mergePrices_tuples_idem mergePrices_idem_but_time
        split: option.splits)
qed

text \<open>The theorem at the snapshot \<open>{aaa: 15}\<close>, \<open>usdJpy = 151\<close>, and the two lots.\<close>

theorem refresh_merge_idempotent_witness:
  "[ex_asset] \<noteq> [] \<and> [ex_asset, ex_asset_b] \<noteq> [] \<and>
   map assetTuple (assets (handleRefreshMarketData [ex_asset, ex_asset_b] (Some ex_snapshot) ex_clock
     (handleRefreshMarketData [ex_asset] (Some ex_snapshot) ex_clock ex_state)))
   = [(''AAA'', 2, 10, 15), (''BBB'', 1, 20, 20)] \<and>
   map assetTuple (assets (handleRefreshMarketData [ex_asset] (Some ex_snapshot) ex_clock ex_state))
   = [(''AAA'', 2, 10, 15), (''BBB'', 1, 20, 20)]"
  using refresh_merge_idempotent [of "[ex_asset]" "[ex_asset, ex_asset_b]"
      "Some ex_snapshot" ex_clock ex_clock ex_state]
  by (simp add: refresh_defs ex_defs)

text \<open>
  Claim C10, as amended. If the first key of the price mapping (in enumeration order) that
  equals a record's ticker case-insensitively carries the number 0, the refresh leaves that
  record unchanged in all fields, \<open>currentPrice\<close> and \<open>lastUpdated\<close> included.
\<close>

theorem refresh_zero_price_unchanged:
  assumes "prices md = Some entries" and "i < length (assets st)"
    and "findEntry entries (ticker (assets st ! i)) = Some (k, JNumber 0)"
  shows "assets (handleRefreshMarketData captured (Some md) clock st) ! i = assets st ! i"
  using assms
  by (simp add: assets_handleRefresh nth_mergePrices mergeAsset_def newPriceOf_def)

text \<open>The theorem at the snapshot \<open>{AAA: 0}\<close> and the lot \<open>AAA\<close>.\<close>

theorem refresh_zero_price_unchanged_witness:
  "prices ex_zero_snapshot = Some [(''AAA'', JNumber 0)] \<and> 0 < length (assets ex_state)
   \<and> findEntry [(''AAA'', JNumber 0)] (ticker (assets ex_state ! 0)) = Some (''AAA'', JNumber 0)
   \<and> assets (handleRefreshMarketData (assets ex_state) (Some ex_zero_snapshot) ex_clock ex_state) ! 0 = ex_asset"
  using refresh_zero_price_unchanged [of ex_zero_snapshot "[(''AAA'', JNumber 0)]" 0 ex_state "''AAA''"
     "assets ex_state" ex_clock]
  by (simp add: findEntry_def toUpperCase_def ex_defs)

text \<open>
  The wording "assigns the value 0 to a key that matches" fails at the snapshot
  \<open>{aaa: 5, AAA: 0}\<close>: the key \<open>AAA\<close> carries 0 and equals the ticker, yet the lot takes
  the price 5 of the earlier key \<open>aaa\<close> and a new timestamp.
\<close>

theorem refresh_zero_price_counterexample:
  "prices ex_two_keys_snapshot = Some [(''aaa'', JNumber 5), (''AAA'', JNumber 0)]
   \<and> toUpperCase ''AAA'' = toUpperCase (ticker (assets ex_state ! 0))
   \<and> assets (handleRefreshMarketData (assets ex_state) (Some ex_two_keys_snapshot) ex_clock ex_state) ! 0
       \<noteq> assets ex_state ! 0
   \<and> currentPrice (assets (handleRefreshMarketData (assets ex_state) (Some ex_two_keys_snapshot) ex_clock ex_state) ! 0) = 5
   \<and> lastUpdated (assets (handleRefreshMarketData (assets ex_state) (Some ex_two_keys_snapshot) ex_clock ex_state) ! 0) = 1000"
  by (simp add: refresh_defs ex_defs)

section \<open>Properties of double arithmetic\<close>


lemma bitLength_bounds:
  "0 < n \<Longrightarrow> 2 ^ (bitLength n - 1) \<le> n \<and> n < 2 ^ bitLength n"
proof (induction n rule: bitLength.induct)
  case (1 n)
  show ?case
  proof (cases "n div 2 = 0")
    case True
    with "1.prems" have "n = 1" by (simp add: div_eq_0_iff) 
    then show ?thesis by (simp add: bitLength.simps)
  next
    case False
    with "1.IH" "1.prems" have IH: "2 ^ (bitLength (n div 2) - 1) \<le> n div 2" "n div 2 < 2 ^ bitLength (n div 2)"
      by auto
    from False have pos: "0 < bitLength (n div 2)"
      by (simp add: bitLength.simps)
    have eq: "bitLength n = Suc (bitLength (n div 2))"
      using "1.prems" by (subst bitLength.simps) simp
    have "2 * 2 ^ (bitLength (n div 2) - 1) \<le> 2 * (n div 2)" using IH(1) by simp
    also have "\<dots> \<le> n" by simp
    finally have lo: "2 ^ bitLength (n div 2) \<le> n"
      using pos by (cases "bitLength (n div 2)") simp_all
    have "n < 2 * (n div 2) + 2" by presburger
    also have "\<dots> \<le> 2 * 2 ^ bitLength (n div 2)" using IH(2) by simp
    finally have hi: "n < 2 ^ Suc (bitLength (n div 2))" by simp
    from lo hi eq show ?thesis by simp
  qed
qed

lemma pow2_pos: "0 < pow2 e"
  by (simp add: pow2_def)

lemma pow2_nat: "pow2 (int n) = 2 ^ n"
  by (simp add: pow2_def)

text \<open>\<open>ilog2\<close> is the binary exponent of its argument.\<close>

lemma ilog2_bounds:
  assumes "0 < x"
  shows "pow2 (ilog2 x) \<le> x \<and> x < pow2 (ilog2 x + 1)"
proof (cases "1 \<le> x")
  case True
  define n where "n = nat \<lfloor>x\<rfloor>"
  have n: "real n \<le> x" "x < real n + 1" "0 < n"
    using True by (simp_all add: n_def)
  define L where "L = bitLength n"
  from bitLength_bounds [OF n(3)] have b: "2 ^ (L - 1) \<le> n" "n < 2 ^ L"
    by (simp_all add: L_def)
  have Lpos: "0 < L"
    using b(2) n(3) by (cases L) simp_all
  have il: "ilog2 x = int L - 1"
    using True by (simp add: ilog2_def n_def L_def)
  have lo: "(2::real) ^ (L - 1) \<le> x"
  proof -
    have "real (2 ^ (L - 1)) \<le> real n" using b(1) by (simp only: of_nat_le_iff)
    then have "(2::real) ^ (L - 1) \<le> real n" by simp
    with n(1) show ?thesis by linarith
  qed
  have hi: "x < (2::real) ^ L"
  proof -
    from b(2) have "n + 1 \<le> 2 ^ L" by simp
    then have "real (n + 1) \<le> real (2 ^ L)" by (simp only: of_nat_le_iff)
    then have "real n + 1 \<le> (2::real) ^ L" by simp
    with n(2) show ?thesis by linarith
  qed
  have p1: "pow2 (int L - 1) = 2 ^ (L - 1)"
    using Lpos by (simp add: pow2_def nat_diff_distrib)
  have p2: "pow2 (int L - 1 + 1) = 2 ^ L"
    by (simp add: pow2_def)
  show ?thesis
    unfolding il p1 p2 using lo hi by simp
next
  case False
  define y where "y = 1 / x"
  have y1: "1 < y"
    using False assms by (simp add: y_def)
  define m where "m = nat (\<lceil>y\<rceil> - 1)"
  have m: "real m < y" "y \<le> real m + 1" "0 < m"
    using y1 by (simp_all add: m_def) linarith+
  define L where "L = bitLength m"
  from bitLength_bounds [OF m(3)] have b: "2 ^ (L - 1) \<le> m" "m < 2 ^ L"
    by (simp_all add: L_def)
  have Lpos: "0 < L"
    using b(2) m(3) by (cases L) simp_all
  have il: "ilog2 x = - int L"
    using False by (simp add: ilog2_def m_def L_def y_def)
  have lo: "(2::real) ^ (L - 1) < y"
  proof -
    have "real (2 ^ (L - 1)) \<le> real m" using b(1) by (simp only: of_nat_le_iff)
    then have "(2::real) ^ (L - 1) \<le> real m" by simp
    with m(1) show ?thesis by linarith
  qed
  have hi: "y \<le> (2::real) ^ L"
  proof -
    from b(2) have "m + 1 \<le> 2 ^ L" by simp
    then have "real (m + 1) \<le> real (2 ^ L)" by (simp only: of_nat_le_iff)
    then have "real m + 1 \<le> (2::real) ^ L" by simp
    with m(2) show ?thesis by linarith
  qed
  have x: "x = 1 / y"
    by (simp add: y_def)
  have p1: "pow2 (- int L) = 1 / 2 ^ L"
    using Lpos by (simp add: pow2_def inverse_eq_divide)
  have p2: "pow2 (- int L + 1) = 1 / 2 ^ (L - 1)"
    using Lpos by (cases L) (simp_all add: pow2_def inverse_eq_divide)
  have ypos: "0 < y" using y1 by simp
  have "1 / 2 ^ L \<le> 1 / y"
    using hi ypos by (simp add: frac_le)
  then have lower: "1 / 2 ^ L \<le> x"
    by (simp only: x)
  have "1 / y < 1 / 2 ^ (L - 1)"
    using lo by (simp add: frac_less2)
  then have upper: "x < 1 / 2 ^ (L - 1)"
    by (simp only: x)
  from lower upper show ?thesis
    unfolding il p1 p2 by simp
qed



lemma roundHalfEven_near: "\<bar>of_int (roundHalfEven y) - y\<bar> \<le> 1 / 2"
  by (simp add: roundHalfEven_def Let_def)

text \<open>Rounding moves a magnitude by at most half the spacing of the doubles around it.\<close>

lemma roundMag_nearest:
  assumes "0 < x" and "roundMag x = Some y"
  shows "\<bar>y - x\<bar> \<le> pow2 (max (ilog2 x - 52) (- 1074)) / 2"
proof -
  define e where "e = max (ilog2 x - 52) (- 1074)"
  define m where "m = roundHalfEven (x / pow2 e)"
  from assms have y: "y = of_int m * pow2 e"
    by (simp add: roundMag_def Let_def e_def m_def split: if_splits)
  have p: "0 < pow2 e" by (rule pow2_pos)
  have "\<bar>of_int m - x / pow2 e\<bar> \<le> 1 / 2"
    unfolding m_def by (rule roundHalfEven_near)
  then have "\<bar>of_int m - x / pow2 e\<bar> * pow2 e \<le> 1 / 2 * pow2 e"
    using p by (intro mult_right_mono) simp_all
  moreover have "\<bar>of_int m - x / pow2 e\<bar> * pow2 e = \<bar>y - x\<bar>"
  proof -
    have "\<bar>of_int m - x / pow2 e\<bar> * pow2 e = \<bar>(of_int m - x / pow2 e) * pow2 e\<bar>"
      using p by (simp add: abs_mult)
    also have "(of_int m - x / pow2 e) * pow2 e = y - x"
      using p by (simp add: y left_diff_distrib)
    finally show ?thesis .
  qed
  ultimately show ?thesis
    by (simp add: e_def)
qed














section \<open>Properties of the portfolio summary\<close>







section \<open>Properties of the chat session\<close>

lemma foldl_streamStep:
  "foldl streamStep (msgs, full) chunks =
     (if chunks = [] then (msgs, full)
      else (msgs[length msgs - 1 :=
                   \<lparr>role = Model, msg_text = full @ concat chunks, isThinking = Some False\<rparr>],
            full @ concat chunks))"
proof (induction chunks arbitrary: msgs full)
  case Nil
  show ?case by simp
next
  case (Cons c cs)
  have step: "streamStep (msgs, full) c =
      (msgs[length msgs - 1 :=
              \<lparr>role = Model, msg_text = full @ c, isThinking = Some False\<rparr>], full @ c)"
    by (simp add: streamStep_def Let_def)
  show ?case
    by (simp add: step Cons.IH)
qed

lemma messages_sendReceived:
  "messages (sendReceived st chunks) =
     messages st @
       [\<lparr>role = User, msg_text = input st, isThinking = None\<rparr>,
        (if chunks = [] then \<lparr>role = Model, msg_text = [], isThinking = Some True\<rparr>
         else \<lparr>role = Model, msg_text = concat chunks, isThinking = Some False\<rparr>)]"
proof -
  have upd: "(xs @ [u, p])[length (xs @ [u, p]) - Suc 0 := m] = xs @ [u, m]"
    for xs :: "chat_message list" and u p m
    by (simp add: list_update_append)
  have start: "messages (sendStart st) =
      (messages st @ [\<lparr>role = User, msg_text = input st, isThinking = None\<rparr>,
        \<lparr>role = Model, msg_text = [], isThinking = Some True\<rparr>])"
    by (simp add: sendStart_def Let_def)
  show ?thesis
    unfolding sendReceived_def Let_def
    by (simp add: foldl_streamStep start upd del: length_append)
qed

text \<open>
  Claim C6, as amended. For a send that is not blocked and any finite list of fragments
  ending normally, \<open>handleSend\<close> appends the user message and exactly one assistant message
  whose final text is the concatenation of the fragments in arrival order. The thinking flag
  of that message is true before the first fragment and false after the first fragment and
  after each later one, so it is false at the end of a stream of at least one fragment.
\<close>

theorem chat_stream_assembly:
  assumes "trim (input st) \<noteq> []" and "\<not> isLoading st"
  shows "messages (handleSend st (chunks, StreamDone)) =
           messages st @
             [\<lparr>role = User, msg_text = input st, isThinking = None\<rparr>,
              last (messages (handleSend st (chunks, StreamDone)))]
    \<and> role (last (messages (handleSend st (chunks, StreamDone)))) = Model
    \<and> msg_text (last (messages (handleSend st (chunks, StreamDone)))) = concat chunks
    \<and> (chunks \<noteq> [] \<longrightarrow>
          isThinking (last (messages (handleSend st (chunks, StreamDone)))) = Some False)
    \<and> isThinking (last (messages (sendReceived st []))) = Some True
    \<and> (\<forall>n. 0 < n \<and> n \<le> length chunks \<longrightarrow>
          last (messages (sendReceived st (take n chunks))) =
            \<lparr>role = Model, msg_text = concat (take n chunks), isThinking = Some False\<rparr>)"
  using assms
  by (auto simp add: handleSend_def Let_def messages_sendReceived)

text \<open>The theorem at the fragments \<open>Hel\<close>, \<open>lo, \<close>, \<open>world\<close>.\<close>

theorem chat_stream_assembly_witness:
  "trim (input ex_chat_state) \<noteq> [] \<and> \<not> isLoading ex_chat_state
   \<and> messages (handleSend ex_chat_state ([''Hel'', ''lo, '', ''world''], StreamDone)) =
       [\<lparr>role = Model, msg_text = ''Hello'', isThinking = None\<rparr>,
        \<lparr>role = User, msg_text = ''hi'', isThinking = None\<rparr>,
        \<lparr>role = Model, msg_text = ''Hello, world'', isThinking = Some False\<rparr>]"
  using chat_stream_assembly [of ex_chat_state "[''Hel'', ''lo, '', ''world'']"]
  by (simp add: ex_chat_state_def handleSend_def sendReceived_def sendStart_def streamStep_def
      trim_def isWhiteSpace_def Let_def)

text \<open>
  The wording "the flag is true after the first fragment is received" fails: once \<open>Hel\<close>
  has arrived the assistant message carries the text \<open>Hel\<close> and the flag false.
\<close>

theorem chat_thinking_flag_counterexample:
  "isThinking (last (messages (sendReceived ex_chat_state (take 1 [''Hel'', ''lo, '', ''world''])))) = Some False
   \<and> isThinking (last (messages (sendReceived ex_chat_state (take 1 [''Hel'', ''lo, '', ''world''])))) \<noteq> Some True
   \<and> msg_text (last (messages (sendReceived ex_chat_state (take 1 [''Hel'', ''lo, '', ''world''])))) = ''Hel''"
  by (simp add: ex_chat_state_def sendReceived_def sendStart_def streamStep_def Let_def)

text \<open>
  Claim C5. A stream that fails before its first fragment: the error message is appended
  after the placeholder, which stays in the history with its thinking flag true; the loading
  flag is cleared.
\<close>

theorem chat_failure_keeps_placeholder:
  "messages (handleSend ex_chat_state ([], StreamFails)) =
     [\<lparr>role = Model, msg_text = ''Hello'', isThinking = None\<rparr>,
      \<lparr>role = User, msg_text = ''hi'', isThinking = None\<rparr>,
      \<lparr>role = Model, msg_text = [], isThinking = Some True\<rparr>,
      \<lparr>role = Model, msg_text = chatErrorText, isThinking = None\<rparr>]
   \<and> isLoading (handleSend ex_chat_state ([], StreamFails)) = False"
  by (simp add: ex_chat_state_def handleSend_def sendReceived_def sendStart_def
      trim_def isWhiteSpace_def Let_def)

section \<open>Properties of the news gateway\<close>

lemma splitAcc_nonempty: "splitAcc sep acc s \<noteq> []"
  by (induction sep acc s rule: splitAcc.induct) auto

lemma splitAcc_no_sep:
  "\<not> sublist sep s \<Longrightarrow> splitAcc sep acc s = [rev acc @ s]"
proof (induction s arbitrary: acc)
  case Nil
  show ?case by simp
next
  case (Cons c cs)
  from Cons.prems have "\<not> prefix sep (c # cs)" and "\<not> sublist sep cs"
    by (auto simp add: sublist_Cons_right)
  then show ?case
    by (simp add: Cons.IH)
qed

lemma split_no_sep: "\<not> sublist sep s \<Longrightarrow> split sep s = [s]"
  by (simp add: split_def splitAcc_no_sep)

lemma sublist_trim: "sublist (trim s) s"
proof -
  have "sublist (dropWhile isWhiteSpace (rev (dropWhile isWhiteSpace s))) (rev (dropWhile isWhiteSpace s))"
    by simp
  then have "sublist (trim s) (dropWhile isWhiteSpace s)"
    by (simp add: trim_def sublist_rev_left)
  moreover have "sublist (dropWhile isWhiteSpace s) s"
    by simp
  ultimately show ?thesis
    by (rule sublist_order.order_trans)
qed

lemma no_sep_trim: "\<not> sublist sep s \<Longrightarrow> \<not> sublist sep (trim s)"
  using sublist_trim sublist_order.order_trans by blast

lemma n_summary_newsItemOf_no_sep:
  "\<not> sublist ''::'' raw \<Longrightarrow> n_summary (newsItemOf chunks index raw) = raw"
  by (simp add: newsItemOf_def split_no_sep nthOpt_def Let_def)

text \<open>
  Claim C8, as amended. For a non-empty ticker list and a non-empty raw response text,
  \<open>fetchStockNews\<close> returns a non-empty list; a text with no \<open>|||\<close> and no \<open>::\<close> gives
  exactly one item, whose summary is the text with leading and trailing whitespace trimmed
  (the full raw text when it is all whitespace); and when no entry parses, the result is
  exactly the one fallback item carrying the full raw text.
\<close>

theorem news_never_discarded:
  assumes "tickers \<noteq> []" and "resp_text r = Some text" and "text \<noteq> []"
  shows "fetchStockNews tickers (Returns r) \<noteq> []
    \<and> (\<not> sublist ''|||'' text \<and> \<not> sublist ''::'' text \<longrightarrow>
         length (fetchStockNews tickers (Returns r)) = 1
         \<and> n_summary (hd (fetchStockNews tickers (Returns r)))
             = (if trim text \<noteq> [] then trim text else text))
    \<and> (filter (\<lambda>s. s \<noteq> []) (map trim (split ''|||'' text)) = [] \<longrightarrow>
         fetchStockNews tickers (Returns r) =
           [\<lparr>n_headline = marketNewsHeadline, n_summary = text,
             n_url = Option.bind (Option.bind (nthOpt (groundingChunks r) 0) web) uri,
             n_source = ''Google Search''\<rparr>])"
proof -
  have nonempty: "fetchStockNews tickers (Returns r) \<noteq> []"
    using assms by (simp add: fetchStockNews_def Let_def)
  have fallback: "fetchStockNews tickers (Returns r) =
           [\<lparr>n_headline = marketNewsHeadline, n_summary = text,
             n_url = Option.bind (Option.bind (nthOpt (groundingChunks r) 0) web) uri,
             n_source = ''Google Search''\<rparr>]"
    if "filter (\<lambda>s. s \<noteq> []) (map trim (split ''|||'' text)) = []"
    using assms that by (simp add: fetchStockNews_def Let_def)
  have single: "length (fetchStockNews tickers (Returns r)) = 1
         \<and> n_summary (hd (fetchStockNews tickers (Returns r)))
             = (if trim text \<noteq> [] then trim text else text)"
    if "\<not> sublist ''|||'' text" and "\<not> sublist ''::'' text"
  proof (cases "trim text = []")
    case True
    with assms that show ?thesis
      by (simp add: fetchStockNews_def Let_def split_no_sep)
  next
    case False
    from that(2) have "\<not> sublist ''::'' (trim text)"
      by (rule no_sep_trim)
    with False assms that(1) show ?thesis
      by (simp add: fetchStockNews_def Let_def split_no_sep n_summary_newsItemOf_no_sep)
  qed
  from nonempty fallback single show ?thesis by blast
qed

text \<open>The theorem at the text \<open>Market steady today\<close>.\<close>

theorem news_never_discarded_witness:
  "[''AAA''] \<noteq> [] \<and> ''Market steady today'' \<noteq> []
   \<and> \<not> sublist ''|||'' ''Market steady today'' \<and> \<not> sublist ''::'' ''Market steady today''
   \<and> length (fetchStockNews [''AAA''] (ex_news_response ''Market steady today'')) = 1
   \<and> n_summary (hd (fetchStockNews [''AAA''] (ex_news_response ''Market steady today'')))
       = ''Market steady today''"
  using news_never_discarded [of "[''AAA'']"
      "\<lparr>resp_text = Some ''Market steady today'', groundingChunks = []\<rparr>" "''Market steady today''"]
  by (simp add: ex_news_response_def sublist_Cons_right trim_def isWhiteSpace_def)

text \<open>
  The wording "whose summary equals the full raw text" fails at a text with a leading
  space: the summary is the trimmed text.
\<close>

theorem news_summary_trimmed_counterexample:
  "\<not> sublist ''|||'' '' Market steady today'' \<and> \<not> sublist ''::'' '' Market steady today''
   \<and> n_summary (hd (fetchStockNews [''AAA''] (ex_news_response '' Market steady today'')))
       = ''Market steady today''
   \<and> n_summary (hd (fetchStockNews [''AAA''] (ex_news_response '' Market steady today'')))
       \<noteq> '' Market steady today''"
  by (simp add: ex_news_response_def sublist_Cons_right fetchStockNews_def newsItemOf_def split_def
      nthOpt_def trim_def isWhiteSpace_def Let_def)

text \<open>
  Claim C9, as amended. \<open>fetchStockNews\<close> returns a finite list with at most as many items
  as the raw text has pieces between \<open>|||\<close> separators, and no item when the gateway
  throws; the list is not cut at 10.
\<close>

theorem news_result_bound:
  "length (fetchStockNews tickers response) \<le>
     (case response of
        Throws \<Rightarrow> 0
      | Returns r \<Rightarrow> length (split ''|||'' (case resp_text r of Some t \<Rightarrow> t | None \<Rightarrow> [])))"
proof (cases response)
  case Throws
  then show ?thesis by (simp add: fetchStockNews_def)
next
  case (Returns r)
  have "split ''|||'' s \<noteq> []" for s
    by (simp add: split_def splitAcc_nonempty)
  then have one: "Suc 0 \<le> length (split ''|||'' s)" for s
    by (simp add: Suc_le_eq)
  have "length (filter (\<lambda>s. s \<noteq> []) (map trim (split ''|||'' s))) \<le> length (split ''|||'' s)" for s
    using length_filter_le [of "\<lambda>s. s \<noteq> []" "map trim (split ''|||'' s)"] by simp
  with one Returns show ?thesis
    by (simp add: fetchStockNews_def Let_def)
qed

text \<open>The bound of 10 fails at a text of eleven stories: all eleven are returned.\<close>

theorem news_result_bound_counterexample:
  "length (fetchStockNews [''AAA''] (ex_news_response ex_eleven_stories)) = 11
   \<and> \<not> length (fetchStockNews [''AAA''] (ex_news_response ex_eleven_stories)) \<le> 10"
  by (simp add: ex_news_response_def ex_eleven_stories_def fetchStockNews_def split_def
      trim_def isWhiteSpace_def Let_def)

section \<open>Properties of the receipt upload\<close>

lemma patchForm_fields:
  "form_ticker (patchForm numberToString d st) =
     (case r_ticker d of Some t \<Rightarrow> if t \<noteq> [] then t else form_ticker st | None \<Rightarrow> form_ticker st)"
  "form_qty (patchForm numberToString d st) =
     (case r_quantity d of
        Some q \<Rightarrow> if q \<noteq> 0 then numberToString q else form_qty st | None \<Rightarrow> form_qty st)"
  "form_price (patchForm numberToString d st) =
     (case r_avgPrice d of
        Some p \<Rightarrow> if p \<noteq> 0 then numberToString p else form_price st | None \<Rightarrow> form_price st)"
  "form_source (patchForm numberToString d st) = form_source st"
  by (simp_all add: patchForm_def Let_def split: option.splits)

text \<open>
  Claim C7, as amended. When the file is read and the extraction returns an object,
  \<open>handleFileChange\<close> sets the ticker field to a present, non-empty ticker, the quantity field
  to the string of a present, non-zero quantity, and the price field to the string of a
  present, non-zero avgPrice; every field whose key is absent (or present with an empty or zero
  value) keeps the value typed before, and the source field is never touched. A response with
  only a ticker changes only the ticker field.
\<close>

theorem receipt_patch_frame:
  assumes "parseTradeScreenshot (nthOpt (split '','' base64String) 1) mimeType = Returns (Some d)"
    and "st' = handleFileChange numberToString parseTradeScreenshot False
                 (Some base64String) (Some mimeType) st"
  shows "form_ticker st' =
           (case r_ticker d of
              Some t \<Rightarrow> if t \<noteq> [] then t else form_ticker st | None \<Rightarrow> form_ticker st)
    \<and> form_qty st' =
           (case r_quantity d of
              Some q \<Rightarrow> if q \<noteq> 0 then numberToString q else form_qty st
            | None \<Rightarrow> form_qty st)
    \<and> form_price st' =
           (case r_avgPrice d of
              Some p \<Rightarrow> if p \<noteq> 0 then numberToString p else form_price st
            | None \<Rightarrow> form_price st)
    \<and> form_source st' = form_source st"
  using assms
  by (simp add: handleFileChange_def onloadend_def Let_def patchForm_fields split: option.splits)

text \<open>The theorem at the response \<open>{ticker: MSFT}\<close> and a filled form.\<close>

theorem receipt_patch_frame_witness:
  "ex_parse_ticker_only (nthOpt (split '','' ex_data_url) 1) ''image/png''
     = Returns (Some \<lparr>r_ticker = Some ''MSFT'', r_companyName = None,
                       r_quantity = None, r_avgPrice = None\<rparr>)
   \<and> form_ticker (handleFileChange ex_numberToString ex_parse_ticker_only False
        (Some ex_data_url) (Some ''image/png'') ex_modal_state) = ''MSFT''
   \<and> form_qty (handleFileChange ex_numberToString ex_parse_ticker_only False
        (Some ex_data_url) (Some ''image/png'') ex_modal_state) = ''5''
   \<and> form_price (handleFileChange ex_numberToString ex_parse_ticker_only False
        (Some ex_data_url) (Some ''image/png'') ex_modal_state) = ''100''"
  using receipt_patch_frame [of ex_parse_ticker_only ex_data_url "''image/png''"
      "\<lparr>r_ticker = Some ''MSFT'', r_companyName = None, r_quantity = None, r_avgPrice = None\<rparr>"
      "handleFileChange ex_numberToString ex_parse_ticker_only False
        (Some ex_data_url) (Some ''image/png'') ex_modal_state"
      ex_numberToString ex_modal_state]
  by (simp add: ex_parse_ticker_only_def ex_modal_state_def)

text \<open>
  The wording "patches exactly the present fields" fails at the response
  \<open>{ticker: MSFT, quantity: 0}\<close>: the quantity is present, and the quantity field keeps
  the typed \<open>5\<close>.
\<close>

theorem receipt_present_field_counterexample:
  "ex_parse_zero_quantity (nthOpt (split '','' ex_data_url) 1) ''image/png''
     = Returns (Some \<lparr>r_ticker = Some ''MSFT'', r_companyName = None,
                       r_quantity = Some 0, r_avgPrice = None\<rparr>)
   \<and> form_qty (handleFileChange ex_numberToString ex_parse_zero_quantity False
        (Some ex_data_url) (Some ''image/png'') ex_modal_state) = ''5''
   \<and> form_qty (handleFileChange ex_numberToString ex_parse_zero_quantity False
        (Some ex_data_url) (Some ''image/png'') ex_modal_state) \<noteq> ex_numberToString 0"
  by (simp add: ex_parse_zero_quantity_def ex_modal_state_def ex_numberToString_def
      handleFileChange_def onloadend_def patchForm_def Let_def)

text \<open>
  Claim C4. Two uploads that never leave the processing state: the extraction throws after
  a successful read, and the read fails (its result is \<^verbatim>\<open>null\<close>). In both the modal ends
  with \<open>isProcessing\<close> true and the status of the analysis in progress.
\<close>

theorem upload_failure_stays_processing:
  "isProcessing (handleFileChange ex_numberToString ex_parse_throws False
      (Some ex_data_url) (Some ''image/png'') ex_modal_state) = True
   \<and> loadingStatus (handleFileChange ex_numberToString ex_parse_throws False
      (Some ex_data_url) (Some ''image/png'') ex_modal_state) = analysingStatus
   \<and> isProcessing (handleFileChange ex_numberToString ex_parse_ticker_only False
      None (Some ''image/png'') ex_modal_state) = True
   \<and> loadingStatus (handleFileChange ex_numberToString ex_parse_ticker_only False
      None (Some ''image/png'') ex_modal_state) = analysingStatus"
  by (simp add: ex_parse_throws_def ex_modal_state_def handleFileChange_def onloadend_def Let_def)

end
